theory Spec2Isabelle
  imports Main "HOL-Library.AList" "HOL-Library.Sublist"
begin

section \<open>PsychSphere backend: inquiries, persistence and notification\<close>

text \<open>
  A shallow embedding of \<^verbatim>\<open>main.py\<close> and \<^verbatim>\<open>schemas.py\<close>. Text is a \<^typ>\<open>string\<close>
  whose elements stand for the characters of a Python \<^verbatim>\<open>str\<close>, so \<^const>\<open>length\<close>
  is Python's \<^verbatim>\<open>len\<close>. An exception is a value; a function that may raise returns a sum
  with the exception on the left.
\<close>

subsection \<open>Python values\<close>

datatype exn = Exception (str_exn: string)

text \<open>Truth value of an \<^verbatim>\<open>Optional[str]\<close>: \<^verbatim>\<open>None\<close> and \<^verbatim>\<open>""\<close> are false.\<close>

definition truthy :: "string option \<Rightarrow> bool" where
  "truthy v = (case v of None \<Rightarrow> False | Some s \<Rightarrow> s \<noteq> [])"

text \<open>\<^verbatim>\<open>a or b\<close> on optional strings, and \<^verbatim>\<open>a or "literal"\<close>.\<close>

definition py_or :: "string option \<Rightarrow> string option \<Rightarrow> string option" where
  "py_or a b = (if truthy a then a else b)"

definition py_or_str :: "string option \<Rightarrow> string \<Rightarrow> string" where
  "py_or_str a d = (case a of None \<Rightarrow> d | Some s \<Rightarrow> if s \<noteq> [] then s else d)"

subsection \<open>schemas.py: the Inquiry model\<close>

record Inquiry =
  name :: string
  email :: string
  phone :: "string option"
  message :: string
  source :: "string option"
  newsletter_opt_in :: bool

text \<open>
  A field of the JSON body of a request: left out, \<^verbatim>\<open>null\<close>, or a value of the
  field's JSON type.
\<close>

datatype 'a json_field = Absent | Null | Given 'a

record submission =
  sub_name :: "string json_field"
  sub_email :: "string json_field"
  sub_phone :: "string json_field"
  sub_message :: "string json_field"
  sub_source :: "string json_field"
  sub_newsletter_opt_in :: "bool json_field"

datatype err_type = Missing | String_type | Bool_type | String_too_short nat | Invalid_email

type_synonym field_error = "string \<times> err_type"

text \<open>\<^verbatim>\<open>str = Field(..., min_length=n)\<close>: a required string of at least \<open>n\<close> characters.\<close>

definition required_str :: "nat \<Rightarrow> string json_field \<Rightarrow> err_type + string" where
  "required_str n f =
     (case f of
        Absent \<Rightarrow> Inl Missing
      | Null \<Rightarrow> Inl String_type
      | Given s \<Rightarrow> if length s < n then Inl (String_too_short n) else Inr s)"

text \<open>
  \<^verbatim>\<open>EmailStr = Field(...)\<close>: a required string that the address validator accepts. The
  validator is the library's; it is the parameter \<open>ev\<close>, which returns the normalised
  address, or \<open>None\<close> for text that is not a syntactically valid address.
\<close>

definition required_email :: "(string \<Rightarrow> string option) \<Rightarrow> string json_field \<Rightarrow> err_type + string" where
  "required_email ev f =
     (case f of
        Absent \<Rightarrow> Inl Missing
      | Null \<Rightarrow> Inl String_type
      | Given s \<Rightarrow> (case ev s of None \<Rightarrow> Inl Invalid_email | Some a \<Rightarrow> Inr a))"

text \<open>\<^verbatim>\<open>Optional[str] = Field(d)\<close>: the default \<open>d\<close> when left out, \<^verbatim>\<open>None\<close> for null.\<close>

definition optional_str :: "string option \<Rightarrow> string json_field \<Rightarrow> string option" where
  "optional_str d f = (case f of Absent \<Rightarrow> d | Null \<Rightarrow> None | Given s \<Rightarrow> Some s)"

text \<open>\<^verbatim>\<open>bool = Field(False)\<close>.\<close>

definition default_bool :: "bool \<Rightarrow> bool json_field \<Rightarrow> err_type + bool" where
  "default_bool d f = (case f of Absent \<Rightarrow> Inr d | Null \<Rightarrow> Inl Bool_type | Given b \<Rightarrow> Inr b)"

fun field_errors :: "string \<Rightarrow> err_type + 'a \<Rightarrow> field_error list" where
  "field_errors loc (Inl e) = [(loc, e)]"
| "field_errors loc (Inr v) = []"

text \<open>
  Validation of a body against \<^verbatim>\<open>Inquiry\<close>: every field is checked, in the order of
  declaration, and the errors of all fields are reported together.
\<close>

definition validate_Inquiry ::
  "(string \<Rightarrow> string option) \<Rightarrow> submission \<Rightarrow> field_error list + Inquiry" where
  "validate_Inquiry ev r =
     (let n = required_str 2 (sub_name r);
          e = required_email ev (sub_email r);
          m = required_str 5 (sub_message r);
          b = default_bool False (sub_newsletter_opt_in r)
      in case (n, e, m, b) of
           (Inr n', Inr e', Inr m', Inr b') \<Rightarrow>
             Inr \<lparr>name = n', email = e',
                  phone = optional_str None (sub_phone r),
                  message = m',
                  source = optional_str (Some ''website'') (sub_source r),
                  newsletter_opt_in = b'\<rparr>
         | _ \<Rightarrow>
             Inl (field_errors ''name'' n @ field_errors ''email'' e
                  @ field_errors ''message'' m @ field_errors ''newsletter_opt_in'' b))"

subsection \<open>main.py: configuration read from the environment\<close>

type_synonym environ = "string \<Rightarrow> string option"

definition getenv :: "environ \<Rightarrow> string \<Rightarrow> string option" where
  "getenv env k = env k"

definition getenv_default :: "environ \<Rightarrow> string \<Rightarrow> string \<Rightarrow> string" where
  "getenv_default env k d = (case env k of None \<Rightarrow> d | Some v \<Rightarrow> v)"

record config =
  SMTP_HOST :: "string option"
  SMTP_PORT :: int
  SMTP_USER :: "string option"
  SMTP_PASS :: "string option"
  TO_EMAIL :: "string option"
  FROM_NAME :: string
  FROM_EMAIL :: string

text \<open>
  The module constants of lines 68 to 74. \<open>py_int\<close> is Python's \<^verbatim>\<open>int\<close> on text, which
  raises on text that is no integer literal; the module then fails to load (\<open>None\<close>).
\<close>

definition module_config :: "(string \<Rightarrow> int option) \<Rightarrow> environ \<Rightarrow> config option" where
  "module_config py_int env =
     (case py_int (getenv_default env ''SMTP_PORT'' ''587'') of
        None \<Rightarrow> None
      | Some port \<Rightarrow>
          Some \<lparr>SMTP_HOST = getenv env ''SMTP_HOST'',
                SMTP_PORT = port,
                SMTP_USER = getenv env ''SMTP_USER'',
                SMTP_PASS = getenv env ''SMTP_PASS'',
                TO_EMAIL = py_or (getenv env ''TO_EMAIL'') (getenv env ''OWNER_EMAIL''),
                FROM_NAME = getenv_default env ''FROM_NAME'' ''PsychSphere Inquiries'',
                FROM_EMAIL =
                  py_or_str (py_or (getenv env ''FROM_EMAIL'') (getenv env ''SMTP_USER''))
                    ''no-reply@psychsphere.local''\<rparr>)"

subsection \<open>main.py: the notification\<close>

text \<open>
  What the program puts into the message: the subject, the display name and address of
  the sender as the pair given to \<^verbatim>\<open>formataddr\<close>, the recipient and the HTML text.
\<close>

record mail =
  Subject :: string
  From :: "string \<times> string"
  To :: string
  html :: string

text \<open>
  The message object of the email library: a multipart with its subtype, the headers in
  the order they were set, and the text parts attached (text and subtype).
\<close>

record mime_message =
  mime_subtype :: string
  mime_headers :: "(string \<times> string) list"
  mime_parts :: "(string \<times> string) list"

text \<open>
  The email library is outside the program. Three of its functions that the program
  calls can raise: \<^verbatim>\<open>formataddr\<close> on the pair of display name and address, the
  constructor \<^verbatim>\<open>MIMEText\<close> on a text and a subtype, and \<^verbatim>\<open>as_string\<close> on the finished
  message. They are parameters; setting a header and attaching a part store their
  argument.
\<close>

record email_lib =
  formataddr :: "string \<times> string \<Rightarrow> exn + string"
  MIMEText :: "string \<Rightarrow> string \<Rightarrow> exn option"
  as_string :: "mime_message \<Rightarrow> exn + string"

text \<open>
  The calls made on the SMTP client, in order: the constructor (host, port, timeout),
  \<^verbatim>\<open>starttls\<close>, \<^verbatim>\<open>login\<close>, \<^verbatim>\<open>sendmail\<close> (sender, recipients, the text of the message), and
  the exit of the \<^verbatim>\<open>with\<close> block.
\<close>

datatype smtp_call =
    Connect string int nat
  | Starttls
  | Login string string
  | Sendmail string "string list" string
  | Exit

text \<open>
  The transport is outside the program: given the calls made so far and the next call, it
  says whether that call raises.
\<close>

type_synonym transport = "smtp_call list \<Rightarrow> smtp_call \<Rightarrow> exn option"

definition call :: "transport \<Rightarrow> smtp_call list \<Rightarrow> smtp_call \<Rightarrow> smtp_call list \<times> exn option" where
  "call tr made c = (made @ [c], tr made c)"

definition subject_of :: "Inquiry \<Rightarrow> string" where
  "subject_of inquiry = ''New PsychSphere Inquiry from '' @ name inquiry"

definition html_body :: "Inquiry \<Rightarrow> string" where
  "html_body inquiry =
     [CHR 0x0A] @ ''    <h2>New Inquiry</h2>'' @ [CHR 0x0A]
     @ ''    <p><strong>Name:</strong> '' @ name inquiry @ ''</p>'' @ [CHR 0x0A]
     @ ''    <p><strong>Email:</strong> '' @ email inquiry @ ''</p>'' @ [CHR 0x0A]
     @ ''    <p><strong>Phone:</strong> '' @ py_or_str (phone inquiry) ''-'' @ '' </p>'' @ [CHR 0x0A]
     @ ''    <p><strong>Newsletter:</strong> ''
     @ (if newsletter_opt_in inquiry then ''Yes'' else ''No'') @ ''</p>'' @ [CHR 0x0A]
     @ ''    <p><strong>Source:</strong> '' @ py_or_str (source inquiry) ''website'' @ ''</p>'' @ [CHR 0x0A]
     @ ''    <hr/>'' @ [CHR 0x0A]
     @ ''    <p>'' @ message inquiry @ ''</p>'' @ [CHR 0x0A]
     @ ''    ''"

definition build_mail :: "config \<Rightarrow> string \<Rightarrow> Inquiry \<Rightarrow> mail" where
  "build_mail cfg to inquiry =
     \<lparr>Subject = subject_of inquiry,
      From = (FROM_NAME cfg, FROM_EMAIL cfg),
      To = to,
      html = html_body inquiry\<rparr>"

text \<open>
  Lines 96 to 100: the multipart is made, \<^verbatim>\<open>Subject\<close>, \<^verbatim>\<open>From\<close> and \<^verbatim>\<open>To\<close> are set and the
  HTML part is attached. \<^verbatim>\<open>formataddr\<close> is called when \<^verbatim>\<open>From\<close> is set and \<^verbatim>\<open>MIMEText\<close> when
  the part is made; what either raises leaves the function.
\<close>

definition assemble :: "email_lib \<Rightarrow> mail \<Rightarrow> exn + mime_message" where
  "assemble lib m =
     (case formataddr lib (From m) of
        Inl e \<Rightarrow> Inl e
      | Inr sender \<Rightarrow>
          (case MIMEText lib (html m) ''html'' of
             Some e \<Rightarrow> Inl e
           | None \<Rightarrow>
               Inr \<lparr>mime_subtype = ''alternative'',
                    mime_headers = [(''Subject'', Subject m), (''From'', sender), (''To'', To m)],
                    mime_parts = [(html m, ''html'')]\<rparr>))"

text \<open>
  The body of the \<^verbatim>\<open>with\<close> block: \<^verbatim>\<open>starttls\<close> inside \<^verbatim>\<open>try/except Exception: pass\<close>,
  then \<^verbatim>\<open>login\<close> when user and password are both true, then \<^verbatim>\<open>sendmail\<close>, whose argument
  \<^verbatim>\<open>msg.as_string()\<close> is evaluated before the call and can raise.
\<close>

definition smtp_session ::
  "email_lib \<Rightarrow> config \<Rightarrow> transport \<Rightarrow> smtp_call list \<Rightarrow> string \<Rightarrow> mime_message
   \<Rightarrow> smtp_call list \<times> exn option" where
  "smtp_session lib cfg tr made to msg =
     (let (d1, r1) = call tr made Starttls;
          (d2, r2) =
            (if truthy (SMTP_USER cfg) \<and> truthy (SMTP_PASS cfg)
             then call tr d1 (Login (py_or_str (SMTP_USER cfg) []) (py_or_str (SMTP_PASS cfg) []))
             else (d1, None))
      in case r2 of
           Some e \<Rightarrow> (d2, Some e)
         | None \<Rightarrow>
             (case as_string lib msg of
                Inl e \<Rightarrow> (d2, Some e)
              | Inr text \<Rightarrow> call tr d2 (Sendmail (FROM_EMAIL cfg) [to] text)))"

text \<open>
  \<^verbatim>\<open>send_inquiry_email\<close>: the calls made on the transport and the exception the function
  raises, if any. The message is put together before the SMTP client is constructed, so
  an exception there leaves the function with no call made. When the constructor raises,
  the block is not entered and there is no exit; otherwise the exit runs after the body,
  and an exception raised by the exit is the one that propagates.
\<close>

definition send_inquiry_email ::
  "email_lib \<Rightarrow> config \<Rightarrow> transport \<Rightarrow> Inquiry \<Rightarrow> smtp_call list \<times> exn option" where
  "send_inquiry_email lib cfg tr inquiry =
     (if \<not> (truthy (SMTP_HOST cfg) \<and> truthy (TO_EMAIL cfg)) then ([], None)
      else
        let host = py_or_str (SMTP_HOST cfg) [];
            to = py_or_str (TO_EMAIL cfg) []
        in case assemble lib (build_mail cfg to inquiry) of
             Inl e \<Rightarrow> ([], Some e)
           | Inr msg \<Rightarrow>
               let (d0, r0) = call tr [] (Connect host (SMTP_PORT cfg) 15)
               in case r0 of
                    Some e \<Rightarrow> (d0, Some e)
                  | None \<Rightarrow>
                      let (d1, r1) = smtp_session lib cfg tr d0 to msg;
                          (d2, r2) = call tr d1 Exit
                      in (d2, case r2 of Some e \<Rightarrow> Some e | None \<Rightarrow> r1))"

subsection \<open>The document store\<close>

datatype object_id = ObjectId nat

datatype bson = VStr string | VBool bool | VNone | VObjectId object_id

type_synonym document = "(string \<times> bson) list"

definition hex_digit :: "nat \<Rightarrow> char" where
  "hex_digit d = ''0123456789abcdef'' ! (d mod 16)"

text \<open>\<^verbatim>\<open>str\<close> of a store identifier: its 24 hexadecimal digits.\<close>

fun str_object_id :: "object_id \<Rightarrow> string" where
  "str_object_id (ObjectId n) = map (\<lambda>i. hex_digit (n div 16 ^ (23 - i))) [0..<24]"

text \<open>Python's \<^verbatim>\<open>str\<close> on a value of a document.\<close>

fun py_str :: "bson \<Rightarrow> string" where
  "py_str (VStr s) = s"
| "py_str (VBool b) = (if b then ''True'' else ''False'')"
| "py_str VNone = ''None''"
| "py_str (VObjectId i) = str_object_id i"

definition opt_bson :: "string option \<Rightarrow> bson" where
  "opt_bson v = (case v of None \<Rightarrow> VNone | Some s \<Rightarrow> VStr s)"

text \<open>The attributes of an inquiry as a dictionary.\<close>

definition model_dump :: "Inquiry \<Rightarrow> document" where
  "model_dump inquiry =
     [(''name'', VStr (name inquiry)),
      (''email'', VStr (email inquiry)),
      (''phone'', opt_bson (phone inquiry)),
      (''message'', VStr (message inquiry)),
      (''source'', opt_bson (source inquiry)),
      (''newsletter_opt_in'', VBool (newsletter_opt_in inquiry))]"

text \<open>
  Modelled from the spec: the document store behind \<^verbatim>\<open>database.py\<close>, which is not among
  the sources. Its state is the collections, the counter from which the next identifier
  is taken, and the fault (with its message) that makes every operation fail while the
  store is unreachable or rejects writes.
\<close>

record store =
  collections :: "string \<Rightarrow> document list"
  next_oid :: nat
  fault :: "string option"

text \<open>
  Modelled from the spec: \<^verbatim>\<open>database.create_document\<close> is not among the sources. The
  spec's \<open>insert\<close> appends a new record to the collection and returns a store-assigned
  unique identifier, or fails with a storage error when the store is unreachable or
  rejects the write; a stored document holds exactly the attributes of the inquiry plus
  that identifier. The identifier is returned as text.
\<close>

definition create_document :: "store \<Rightarrow> string \<Rightarrow> Inquiry \<Rightarrow> exn + (string \<times> store)" where
  "create_document s coll data =
     (case fault s of
        Some msg \<Rightarrow> Inl (Exception msg)
      | None \<Rightarrow>
          let oid = ObjectId (next_oid s);
              doc = (''_id'', VObjectId oid) # model_dump data
          in Inr (str_object_id oid,
                  s\<lparr>collections := (collections s)(coll := collections s coll @ [doc]),
                    next_oid := Suc (next_oid s)\<rparr>))"

text \<open>A document matches a filter when it has every key of the filter with the same value.\<close>

definition matches :: "document \<Rightarrow> document \<Rightarrow> bool" where
  "matches filter_dict d = list_all (\<lambda>(k, v). map_of d k = Some v) filter_dict"

text \<open>
  Modelled from the spec: \<^verbatim>\<open>database.get_documents\<close> is not among the sources. The
  spec's \<open>list\<close> returns up to \<open>limit\<close> records of the collection, in no required order,
  and fails with a storage error when the store is unreachable. The filter of the one
  call in the program is the empty dictionary, which every record matches.
\<close>

definition get_documents :: "store \<Rightarrow> string \<Rightarrow> document \<Rightarrow> int \<Rightarrow> exn + document list" where
  "get_documents s coll filter_dict limit =
     (case fault s of
        Some msg \<Rightarrow> Inl (Exception msg)
      | None \<Rightarrow> Inr (take (nat limit) (filter (matches filter_dict) (collections s coll))))"

subsection \<open>main.py: the two inquiry routes\<close>

datatype body =
    JObject "(string \<times> bson) list"
  | JItems "document list"
  | JDetail string
  | JErrors "field_error list"

datatype response = Response (status_code: nat) (content: body)

text \<open>\<^verbatim>\<open>raise HTTPException(status_code=500, detail=str(e))\<close>\<close>

definition HTTPException :: "nat \<Rightarrow> string \<Rightarrow> response" where
  "HTTPException code detail = Response code (JDetail detail)"

text \<open>
  \<^verbatim>\<open>create_inquiry\<close>: the response, the store after the call, and the queue of background
  tasks, each a call of \<^verbatim>\<open>send_inquiry_email\<close> on the inquiry it holds.
\<close>

definition create_inquiry :: "store \<Rightarrow> Inquiry \<Rightarrow> Inquiry list \<Rightarrow> response \<times> store \<times> Inquiry list" where
  "create_inquiry s inquiry background_tasks =
     (case create_document s ''inquiry'' inquiry of
        Inr (inserted_id, s') \<Rightarrow>
          (Response 200 (JObject [(''status'', VStr ''ok''), (''id'', VStr inserted_id)]),
           s', background_tasks @ [inquiry])
      | Inl e \<Rightarrow> (HTTPException 500 (str_exn e), s, background_tasks))"

text \<open>The loop body of \<^verbatim>\<open>list_inquiries\<close>: \<^verbatim>\<open>if "_id" in d: d["_id"] = str(d["_id"])\<close>.\<close>

definition stringify_id :: "document \<Rightarrow> document" where
  "stringify_id d =
     (case map_of d ''_id'' of
        None \<Rightarrow> d
      | Some v \<Rightarrow> AList.update ''_id'' (VStr (py_str v)) d)"

definition list_inquiries :: "store \<Rightarrow> int \<Rightarrow> response" where
  "list_inquiries s limit =
     (case get_documents s ''inquiry'' [] limit of
        Inr docs \<Rightarrow> Response 200 (JItems (map stringify_id docs))
      | Inl e \<Rightarrow> HTTPException 500 (str_exn e))"

text \<open>
  The routes as the framework serves them. \<^verbatim>\<open>POST /inquiries\<close> validates the body against
  \<^verbatim>\<open>Inquiry\<close> before the handler is called and answers 422 with the errors when it fails;
  the background tasks run once the response is made, and what they raise goes
  nowhere. The result is the response, the store afterwards and what each background
  task did. \<^verbatim>\<open>GET /inquiries\<close> takes \<open>limit\<close> from the query, 50 when it is absent.
\<close>

definition post_inquiries ::
  "(string \<Rightarrow> string option) \<Rightarrow> email_lib \<Rightarrow> config \<Rightarrow> transport \<Rightarrow> store \<Rightarrow> submission
   \<Rightarrow> response \<times> store \<times> (smtp_call list \<times> exn option) list" where
  "post_inquiries ev lib cfg tr s r =
     (case validate_Inquiry ev r of
        Inl errs \<Rightarrow> (Response 422 (JErrors errs), s, [])
      | Inr inquiry \<Rightarrow>
          let (resp, s', tasks) = create_inquiry s inquiry []
          in (resp, s', map (send_inquiry_email lib cfg tr) tasks))"

definition get_inquiries :: "store \<Rightarrow> int option \<Rightarrow> response" where
  "get_inquiries s q = list_inquiries s (case q of None \<Rightarrow> 50 | Some limit \<Rightarrow> limit)"

subsection \<open>Example data\<close>

text \<open>A stand-in for the address validator: text with an at sign, unchanged.\<close>

definition ev_at :: "string \<Rightarrow> string option" where
  "ev_at s = (if CHR ''@'' \<in> set s then Some s else None)"

definition jo :: submission where
  "jo = \<lparr>sub_name = Given ''Jo'', sub_email = Given ''jo@example.com'', sub_phone = Absent,
         sub_message = Given ''Hello there'', sub_source = Absent,
         sub_newsletter_opt_in = Absent\<rparr>"

definition jo_inquiry :: Inquiry where
  "jo_inquiry = \<lparr>name = ''Jo'', email = ''jo@example.com'', phone = None,
                 message = ''Hello there'', source = Some ''website'',
                 newsletter_opt_in = False\<rparr>"

definition empty_store :: store where
  "empty_store = \<lparr>collections = (\<lambda>c. []), next_oid = 0, fault = None\<rparr>"

definition down_store :: store where
  "down_store = \<lparr>collections = (\<lambda>c. []), next_oid = 0, fault = Some ''store unreachable''\<rparr>"

definition cfg_mail :: config where
  "cfg_mail = \<lparr>SMTP_HOST = Some ''smtp.example.com'', SMTP_PORT = 587,
               SMTP_USER = Some ''mailer'', SMTP_PASS = Some ''secret'',
               TO_EMAIL = Some ''owner@example.com'', FROM_NAME = ''PsychSphere Inquiries'',
               FROM_EMAIL = ''mailer''\<rparr>"

definition cfg_none :: config where
  "cfg_none = \<lparr>SMTP_HOST = None, SMTP_PORT = 587, SMTP_USER = None, SMTP_PASS = None,
               TO_EMAIL = Some ''owner@example.com'', FROM_NAME = ''PsychSphere Inquiries'',
               FROM_EMAIL = ''no-reply@psychsphere.local''\<rparr>"

definition short_name :: submission where
  "short_name = jo\<lparr>sub_name := Given ''J''\<rparr>"

text \<open>An environment, a stand-in for \<^verbatim>\<open>int\<close> on decimal port numbers, an inquiry with markup.\<close>

definition env_owner :: environ where
  "env_owner = [''SMTP_HOST'' \<mapsto> ''smtp.example.com'', ''SMTP_USER'' \<mapsto> ''mailer'',
                ''OWNER_EMAIL'' \<mapsto> ''owner@example.com'']"

definition int_587 :: "string \<Rightarrow> int option" where
  "int_587 t = (if t = ''587'' then Some 587 else None)"



text \<open>
  A stand-in for the email library: \<^verbatim>\<open>formataddr\<close> raises on an address with a character
  outside ASCII, \<^verbatim>\<open>as_string\<close> raises on a header value with a line break, and the text of
  a message is its headers, an empty line and its parts.
\<close>

definition is_ascii :: "string \<Rightarrow> bool" where
  "is_ascii t = list_all (\<lambda>ch. (of_char ch :: nat) < 128) t"

definition render :: "mime_message \<Rightarrow> string" where
  "render m =
     concat (map (\<lambda>(k, v). k @ '': '' @ v @ [CHR 0x0A]) (mime_headers m))
     @ [CHR 0x0A] @ concat (map fst (mime_parts m))"

definition lib_std :: email_lib where
  "lib_std =
     \<lparr>formataddr = (\<lambda>(n, a). if is_ascii a then Inr (n @ '' <'' @ a @ ''>'')
                               else Inl (Exception ''UnicodeEncodeError'')),
      MIMEText = (\<lambda>t sub. None),
      as_string = (\<lambda>m. if list_ex (\<lambda>(k, v). CHR 0x0A \<in> set v) (mime_headers m)
                         then Inl (Exception ''HeaderParseError'')
                         else Inr (render m))\<rparr>"

text \<open>An inquiry whose name has a line break, and a sender address outside ASCII.\<close>

definition two_line_inquiry :: Inquiry where
  "two_line_inquiry = jo_inquiry\<lparr>name := ''Jo'' @ [CHR 0x0A] @ ''Bcc: evil@example.com''\<rparr>"

definition cfg_latin_sender :: config where
  "cfg_latin_sender = cfg_mail\<lparr>FROM_EMAIL := ''jos'' @ [CHR 0xE9] @ ''@example.com''\<rparr>"

text \<open>Transports: one where every call succeeds, and ones where a single call raises.\<close>

definition tr_ok :: transport where
  "tr_ok made c = None"




definition tr_send_fails :: transport where
  "tr_send_fails made c =
     (case c of Sendmail f t m \<Rightarrow> Some (Exception ''recipient refused'') | _ \<Rightarrow> None)"

text \<open>A run of several submissions, one after the other, keeping the store.\<close>

fun post_all ::
  "(string \<Rightarrow> string option) \<Rightarrow> email_lib \<Rightarrow> config \<Rightarrow> transport \<Rightarrow> store \<Rightarrow> submission list
   \<Rightarrow> store" where
  "post_all ev lib cfg tr s [] = s"
| "post_all ev lib cfg tr s (r # rs) =
     post_all ev lib cfg tr (fst (snd (post_inquiries ev lib cfg tr s r))) rs"

section \<open>Properties\<close>

lemma str_object_id_length: "length (str_object_id i) = 24"
  by (cases i) simp

lemma str_object_id_nonempty: "str_object_id i \<noteq> []"
  using str_object_id_length [of i] by auto

lemma required_str_short:
  "f = Given t \<Longrightarrow> length t < n \<Longrightarrow> required_str n f = Inl (String_too_short n)"
  by (simp add: required_str_def)

lemma required_email_invalid:
  "f = Given t \<Longrightarrow> ev t = None \<Longrightarrow> required_email ev f = Inl Invalid_email"
  by (simp add: required_email_def)

lemma validate_errors:
  "validate_Inquiry ev r = Inl errs \<Longrightarrow>
     errs = field_errors ''name'' (required_str 2 (sub_name r))
          @ field_errors ''email'' (required_email ev (sub_email r))
          @ field_errors ''message'' (required_str 5 (sub_message r))
          @ field_errors ''newsletter_opt_in'' (default_bool False (sub_newsletter_opt_in r))"
  by (auto simp: validate_Inquiry_def Let_def split: sum.splits)

lemma validate_name_fails:
  "required_str 2 (sub_name r) = Inl e \<Longrightarrow> \<exists>errs. validate_Inquiry ev r = Inl errs"
  by (auto simp: validate_Inquiry_def Let_def split: sum.splits)

lemma validate_email_fails:
  "required_email ev (sub_email r) = Inl e \<Longrightarrow> \<exists>errs. validate_Inquiry ev r = Inl errs"
  by (auto simp: validate_Inquiry_def Let_def split: sum.splits)

lemma validate_message_fails:
  "required_str 5 (sub_message r) = Inl e \<Longrightarrow> \<exists>errs. validate_Inquiry ev r = Inl errs"
  by (auto simp: validate_Inquiry_def Let_def split: sum.splits)

lemma validate_valid:
  "validate_Inquiry ev r = Inr i \<Longrightarrow>
     required_str 2 (sub_name r) = Inr (name i) \<and> required_email ev (sub_email r) = Inr (email i)
     \<and> required_str 5 (sub_message r) = Inr (message i)"
  by (auto simp: validate_Inquiry_def Let_def split: sum.splits)

lemma post_invalid:
  "validate_Inquiry ev r = Inl errs \<Longrightarrow>
     post_inquiries ev lib cfg tr s r = (Response 422 (JErrors errs), s, [])"
  by (simp add: post_inquiries_def)

lemma create_inquiry_ok:
  "fault s = None \<Longrightarrow>
     create_inquiry s i q =
       (Response 200 (JObject [(''status'', VStr ''ok''),
                               (''id'', VStr (str_object_id (ObjectId (next_oid s))))]),
        s\<lparr>collections := (collections s)(''inquiry'' := collections s ''inquiry''
             @ [(''_id'', VObjectId (ObjectId (next_oid s))) # model_dump i]),
          next_oid := Suc (next_oid s)\<rparr>,
        q @ [i])"
  by (simp add: create_inquiry_def create_document_def Let_def)

lemma create_inquiry_fault:
  "fault s = Some msg \<Longrightarrow> create_inquiry s i q = (Response 500 (JDetail msg), s, q)"
  by (simp add: create_inquiry_def create_document_def HTTPException_def)

lemma post_valid_ok:
  "validate_Inquiry ev r = Inr i \<Longrightarrow> fault s = None \<Longrightarrow>
     post_inquiries ev lib cfg tr s r =
       (Response 200 (JObject [(''status'', VStr ''ok''),
                               (''id'', VStr (str_object_id (ObjectId (next_oid s))))]),
        s\<lparr>collections := (collections s)(''inquiry'' := collections s ''inquiry''
             @ [(''_id'', VObjectId (ObjectId (next_oid s))) # model_dump i]),
          next_oid := Suc (next_oid s)\<rparr>,
        [send_inquiry_email lib cfg tr i])"
  by (simp add: post_inquiries_def create_inquiry_ok)

lemma post_valid_fault:
  "validate_Inquiry ev r = Inr i \<Longrightarrow> fault s = Some msg \<Longrightarrow>
     post_inquiries ev lib cfg tr s r = (Response 500 (JDetail msg), s, [])"
  by (simp add: post_inquiries_def create_inquiry_fault)

lemma validate_jo: "validate_Inquiry ev_at jo = Inr jo_inquiry"
  by (simp add: validate_Inquiry_def jo_def jo_inquiry_def required_str_def required_email_def
      default_bool_def optional_str_def ev_at_def)

text \<open>
  C1. A submission whose name is shorter than 2 characters, or whose message is shorter
  than 5, or whose email the address validator rejects, is answered with 422 and the list
  of field errors, which names each violating field; the store is unchanged and no
  notification task runs.
\<close>
theorem C1_invalid_rejected:
  assumes "(\<exists>t. sub_name r = Given t \<and> length t < 2)
         \<or> (\<exists>t. sub_message r = Given t \<and> length t < 5)
         \<or> (\<exists>t. sub_email r = Given t \<and> ev t = None)"
  shows "\<exists>errs. post_inquiries ev lib cfg tr s r = (Response 422 (JErrors errs), s, [])
           \<and> ((\<exists>t. sub_name r = Given t \<and> length t < 2)
                 \<longrightarrow> (''name'', String_too_short 2) \<in> set errs)
           \<and> ((\<exists>t. sub_message r = Given t \<and> length t < 5)
                 \<longrightarrow> (''message'', String_too_short 5) \<in> set errs)
           \<and> ((\<exists>t. sub_email r = Given t \<and> ev t = None)
                 \<longrightarrow> (''email'', Invalid_email) \<in> set errs)"
proof -
  from assms obtain errs where v: "validate_Inquiry ev r = Inl errs"
    using validate_name_fails [of r _ ev] validate_message_fails [of r _ ev]
      validate_email_fails [of ev r]
    by (metis required_str_short required_email_invalid)
  note e = validate_errors [OF v]
  have "post_inquiries ev lib cfg tr s r = (Response 422 (JErrors errs), s, [])"
    using v by (rule post_invalid)
  moreover have "(''name'', String_too_short 2) \<in> set errs"
    if "\<exists>t. sub_name r = Given t \<and> length t < 2"
    using that e by (auto simp: required_str_short)
  moreover have "(''message'', String_too_short 5) \<in> set errs"
    if "\<exists>t. sub_message r = Given t \<and> length t < 5"
    using that e by (auto simp: required_str_short)
  moreover have "(''email'', Invalid_email) \<in> set errs"
    if "\<exists>t. sub_email r = Given t \<and> ev t = None"
    using that e by (auto simp: required_email_invalid)
  ultimately show ?thesis by blast
qed

text \<open>The one-letter name \<open>J\<close> is rejected with an error on the field \<open>name\<close>.\<close>
theorem C1_invalid_rejected_witness:
  "(\<exists>t. sub_name short_name = Given t \<and> length t < 2)
   \<and> (\<exists>errs. post_inquiries ev_at lib_std cfg_mail tr_ok empty_store short_name
                 = (Response 422 (JErrors errs), empty_store, [])
              \<and> (''name'', String_too_short 2) \<in> set errs)"
proof -
  have h: "\<exists>t. sub_name short_name = Given t \<and> length t < 2"
    by (simp add: short_name_def jo_def)
  then have "(\<exists>t. sub_name short_name = Given t \<and> length t < 2)
         \<or> (\<exists>t. sub_message short_name = Given t \<and> length t < 5)
         \<or> (\<exists>t. sub_email short_name = Given t \<and> ev_at t = None)" by (rule disjI1)
  from C1_invalid_rejected [OF this, of lib_std cfg_mail tr_ok empty_store] h
  show ?thesis by blast
qed

text \<open>
  C2. A valid submission on a store that accepts the write is answered with 200 and the
  body \<open>{"status": "ok", "id": ident}\<close>, where \<open>ident\<close> is non-empty text; the collection
  \<open>inquiry\<close> gains exactly one record, and no other collection changes.
\<close>
theorem C2_valid_persisted:
  assumes "validate_Inquiry ev r = Inr inquiry" and "fault s = None"
  shows "\<exists>ident s'.
           post_inquiries ev lib cfg tr s r =
             (Response 200 (JObject [(''status'', VStr ''ok''), (''id'', VStr ident)]), s',
              [send_inquiry_email lib cfg tr inquiry])
           \<and> ident \<noteq> []
           \<and> collections s' ''inquiry''
               = collections s ''inquiry'' @ [(''_id'', VObjectId (ObjectId (next_oid s))) # model_dump inquiry]
           \<and> length (collections s' ''inquiry'') = Suc (length (collections s ''inquiry''))
           \<and> (\<forall>c. c \<noteq> ''inquiry'' \<longrightarrow> collections s' c = collections s c)
           \<and> ident = py_str (VObjectId (ObjectId (next_oid s)))"
  using post_valid_ok [OF assms, of lib cfg tr] str_object_id_nonempty [of "ObjectId (next_oid s)"]
  by simp

text \<open>The example submission on the empty store.\<close>
theorem C2_valid_persisted_witness:
  "validate_Inquiry ev_at jo = Inr jo_inquiry \<and> fault empty_store = None
   \<and> (\<exists>ident s'.
         post_inquiries ev_at lib_std cfg_none tr_ok empty_store jo =
           (Response 200 (JObject [(''status'', VStr ''ok''), (''id'', VStr ident)]), s',
            [send_inquiry_email lib_std cfg_none tr_ok jo_inquiry])
         \<and> ident \<noteq> []
         \<and> collections s' ''inquiry'' = [(''_id'', VObjectId (ObjectId 0)) # model_dump jo_inquiry])"
proof -
  have f: "fault empty_store = None" by (simp add: empty_store_def)
  from C2_valid_persisted [OF validate_jo f, of lib_std cfg_none tr_ok]
  show ?thesis using validate_jo f by (auto simp: empty_store_def)
qed

lemma get_documents_all: "filter (matches []) ds = ds"
  by (simp add: matches_def)

lemma get_inquiries_ok:
  "fault s = None \<Longrightarrow>
     get_inquiries s q =
       Response 200 (JItems (map stringify_id
         (take (nat (case q of None \<Rightarrow> 50 | Some limit \<Rightarrow> limit)) (collections s ''inquiry''))))"
  by (simp add: get_inquiries_def list_inquiries_def get_documents_def get_documents_all)

lemma get_inquiries_fault:
  "fault s = Some msg \<Longrightarrow> get_inquiries s q = Response 500 (JDetail msg)"
  by (simp add: get_inquiries_def list_inquiries_def get_documents_def HTTPException_def)

text \<open>
  C3. When the insert of a valid submission raises a storage error, the answer is 500
  with the error's message, and the stored state is the one before the request: every
  later listing, also once the store is reachable again, shows what it would have shown
  without the request.
\<close>
theorem C3_storage_error:
  assumes "validate_Inquiry ev r = Inr inquiry" and "fault s = Some msg"
  shows "post_inquiries ev lib cfg tr s r = (Response 500 (JDetail msg), s, [])
       \<and> get_inquiries (fst (snd (post_inquiries ev lib cfg tr s r))) q = get_inquiries s q
       \<and> get_inquiries ((fst (snd (post_inquiries ev lib cfg tr s r)))\<lparr>fault := None\<rparr>) q
           = get_inquiries (s\<lparr>fault := None\<rparr>) q
       \<and> collections (fst (snd (post_inquiries ev lib cfg tr s r))) = collections s"
  using post_valid_fault [OF assms, of lib cfg tr] by simp

text \<open>The example submission on an unreachable store that was empty.\<close>
theorem C3_storage_error_witness:
  "validate_Inquiry ev_at jo = Inr jo_inquiry \<and> fault down_store = Some ''store unreachable''
   \<and> post_inquiries ev_at lib_std cfg_mail tr_ok down_store jo
       = (Response 500 (JDetail ''store unreachable''), down_store, [])
   \<and> get_inquiries ((fst (snd (post_inquiries ev_at lib_std cfg_mail tr_ok down_store jo)))\<lparr>fault := None\<rparr>) None
       = Response 200 (JItems [])"
proof -
  have f: "fault down_store = Some ''store unreachable''" by (simp add: down_store_def)
  have g: "get_inquiries (down_store\<lparr>fault := None\<rparr>) None = Response 200 (JItems [])"
    by (simp add: get_inquiries_ok down_store_def)
  from C3_storage_error [OF validate_jo f, of lib_std cfg_mail tr_ok None]
  show ?thesis using validate_jo f g by simp
qed

text \<open>
  C4. For a valid submission that is persisted, the response is the 200 success response
  whatever the mail configuration and the transport are, so also when the notification
  raises; the response and the store do not depend on them, and the outcome of the
  notification stays with the background task.
\<close>
theorem C4_notification_isolated:
  assumes "validate_Inquiry ev r = Inr inquiry" and "fault s = None"
  shows "fst (post_inquiries ev lib cfg tr s r)
           = Response 200 (JObject [(''status'', VStr ''ok''),
                                    (''id'', VStr (str_object_id (ObjectId (next_oid s))))])
       \<and> fst (post_inquiries ev lib cfg tr s r) = fst (post_inquiries ev lib' cfg' tr' s r)
       \<and> fst (snd (post_inquiries ev lib cfg tr s r)) = fst (snd (post_inquiries ev lib' cfg' tr' s r))
       \<and> snd (snd (post_inquiries ev lib cfg tr s r)) = [send_inquiry_email lib cfg tr inquiry]"
  using post_valid_ok [OF assms, of lib cfg tr] post_valid_ok [OF assms, of lib' cfg' tr'] by simp

lemma send_jo_fails:
  "snd (send_inquiry_email lib_std cfg_mail tr_send_fails jo_inquiry) = Some (Exception ''recipient refused'')"
  by (simp add: send_inquiry_email_def smtp_session_def assemble_def call_def truthy_def
      py_or_str_def cfg_mail_def tr_send_fails_def build_mail_def lib_std_def is_ascii_def
      subject_of_def jo_inquiry_def Let_def)

text \<open>A transport that refuses the message: the notification raises, the response is 200.\<close>
theorem C4_notification_isolated_witness:
  "validate_Inquiry ev_at jo = Inr jo_inquiry \<and> fault empty_store = None
   \<and> snd (send_inquiry_email lib_std cfg_mail tr_send_fails jo_inquiry) = Some (Exception ''recipient refused'')
   \<and> status_code (fst (post_inquiries ev_at lib_std cfg_mail tr_send_fails empty_store jo)) = 200
   \<and> fst (post_inquiries ev_at lib_std cfg_mail tr_send_fails empty_store jo)
       = fst (post_inquiries ev_at lib_std cfg_mail tr_ok empty_store jo)
   \<and> snd (snd (post_inquiries ev_at lib_std cfg_mail tr_send_fails empty_store jo))
       = [send_inquiry_email lib_std cfg_mail tr_send_fails jo_inquiry]"
proof -
  have f: "fault empty_store = None" by (simp add: empty_store_def)
  note t = C4_notification_isolated [OF validate_jo f, of lib_std cfg_mail tr_send_fails lib_std cfg_mail tr_ok]
  from t have "status_code (fst (post_inquiries ev_at lib_std cfg_mail tr_send_fails empty_store jo)) = 200"
    by (metis response.sel(1))
  with t show ?thesis using validate_jo f send_jo_fails by blast
qed

lemma send_unconfigured:
  "\<not> truthy (SMTP_HOST cfg) \<or> \<not> truthy (TO_EMAIL cfg) \<Longrightarrow>
     send_inquiry_email lib cfg tr inquiry = ([], None)"
  by (auto simp: send_inquiry_email_def)

text \<open>
  C5. When the SMTP host or the recipient is not configured (unset or empty),
  \<^verbatim>\<open>send_inquiry_email\<close> makes no call on any transport and raises nothing, and a valid
  submission on a store that accepts the write is still answered with 200.
\<close>
theorem C5_unconfigured_noop:
  assumes "\<not> truthy (SMTP_HOST cfg) \<or> \<not> truthy (TO_EMAIL cfg)"
  shows "send_inquiry_email lib cfg tr inquiry = ([], None)
       \<and> (validate_Inquiry ev r = Inr inquiry \<and> fault s = None \<longrightarrow>
            status_code (fst (post_inquiries ev lib cfg tr s r)) = 200
            \<and> content (fst (post_inquiries ev lib cfg tr s r))
                = JObject [(''status'', VStr ''ok''),
                           (''id'', VStr (str_object_id (ObjectId (next_oid s))))]
            \<and> snd (snd (post_inquiries ev lib cfg tr s r)) = [([], None)])"
proof (intro conjI impI)
  show n: "send_inquiry_email lib cfg tr inquiry = ([], None)"
    using assms by (rule send_unconfigured)
  assume "validate_Inquiry ev r = Inr inquiry \<and> fault s = None"
  then have p: "post_inquiries ev lib cfg tr s r =
       (Response 200 (JObject [(''status'', VStr ''ok''),
                               (''id'', VStr (str_object_id (ObjectId (next_oid s))))]),
        s\<lparr>collections := (collections s)(''inquiry'' := collections s ''inquiry''
             @ [(''_id'', VObjectId (ObjectId (next_oid s))) # model_dump inquiry]),
          next_oid := Suc (next_oid s)\<rparr>,
        [send_inquiry_email lib cfg tr inquiry])"
    by (simp add: post_valid_ok)
  show "status_code (fst (post_inquiries ev lib cfg tr s r)) = 200"
    by (simp add: p)
  show "content (fst (post_inquiries ev lib cfg tr s r))
          = JObject [(''status'', VStr ''ok''), (''id'', VStr (str_object_id (ObjectId (next_oid s))))]"
    by (simp add: p)
  show "snd (snd (post_inquiries ev lib cfg tr s r)) = [([], None)]"
    by (simp add: p n)
qed

text \<open>No host is configured: nothing reaches the transport, which would have refused.\<close>
theorem C5_unconfigured_noop_witness:
  "\<not> truthy (SMTP_HOST cfg_none)
   \<and> validate_Inquiry ev_at jo = Inr jo_inquiry \<and> fault empty_store = None
   \<and> send_inquiry_email lib_std cfg_none tr_send_fails jo_inquiry = ([], None)
   \<and> status_code (fst (post_inquiries ev_at lib_std cfg_none tr_send_fails empty_store jo)) = 200
   \<and> snd (snd (post_inquiries ev_at lib_std cfg_none tr_send_fails empty_store jo)) = [([], None)]"
proof -
  have h: "\<not> truthy (SMTP_HOST cfg_none) \<or> \<not> truthy (TO_EMAIL cfg_none)"
    by (simp add: truthy_def cfg_none_def)
  have f: "fault empty_store = None" by (simp add: empty_store_def)
  have n: "\<not> truthy (SMTP_HOST cfg_none)" by (simp add: truthy_def cfg_none_def)
  from C5_unconfigured_noop [OF h, of lib_std tr_send_fails jo_inquiry ev_at jo empty_store]
  show ?thesis using n validate_jo f by simp
qed

lemma map_of_stringify_id:
  "map_of (stringify_id d) ''_id'' = map_option (\<lambda>v. VStr (py_str v)) (map_of d ''_id'')"
  by (simp add: stringify_id_def update_conv' split: option.splits)

lemma post_all_valid:
  "fault s = None \<Longrightarrow> \<forall>r\<in>set rs. \<exists>i. validate_Inquiry ev r = Inr i \<Longrightarrow>
     fault (post_all ev lib cfg tr s rs) = None
     \<and> length (collections (post_all ev lib cfg tr s rs) ''inquiry'')
         = length (collections s ''inquiry'') + length rs"
proof (induction rs arbitrary: s)
  case Nil
  then show ?case by simp
next
  case (Cons r rs)
  from Cons.prems obtain i where v: "validate_Inquiry ev r = Inr i" by auto
  let ?s = "fst (snd (post_inquiries ev lib cfg tr s r))"
  have "fault ?s = None" and "length (collections ?s ''inquiry'') = Suc (length (collections s ''inquiry''))"
    using post_valid_ok [OF v Cons.prems(1), of lib cfg tr] Cons.prems(1) by simp_all
  with Cons.IH [of ?s] Cons.prems(2) show ?case by simp
qed

text \<open>
  With \<open>limit = -1\<close> the listing succeeds with no items, and no count of items is at most
  \<open>-1\<close>.
\<close>
theorem C6_negative_limit_counterexample:
  "get_inquiries empty_store (Some (- 1)) = Response 200 (JItems [])
   \<and> \<not> int (length ([] :: document list)) \<le> - 1"
  by (simp add: get_inquiries_ok empty_store_def)

text \<open>
  C6, for limits that are not negative. \<^verbatim>\<open>GET /inquiries\<close> with \<open>limit\<close> (50 when
  absent) on a reachable store answers 200 with items; when \<open>0 \<le> limit\<close> there are at most
  \<open>limit\<close> of them; the \<open>_id\<close> of every item is text, the \<^verbatim>\<open>str\<close> of the identifier the
  store holds; after five valid submissions, \<open>limit = 2\<close> gives exactly two items; on an
  unreachable store the answer is 500.
\<close>
theorem C6_listing:
  assumes "limit = (case q of None \<Rightarrow> 50 | Some l \<Rightarrow> l)"
  shows "(fault s = None \<longrightarrow>
           (\<exists>items. get_inquiries s q = Response 200 (JItems items)
              \<and> (0 \<le> limit \<longrightarrow> int (length items) \<le> limit)
              \<and> (\<forall>d\<in>set items. \<forall>v. map_of d ''_id'' = Some v \<longrightarrow> (\<exists>t. v = VStr t))
              \<and> (\<forall>k < length items.
                    map_of (items ! k) ''_id''
                      = map_option (\<lambda>v. VStr (py_str v)) (map_of (collections s ''inquiry'' ! k) ''_id''))))
       \<and> (\<forall>msg. fault s = Some msg \<longrightarrow> get_inquiries s q = Response 500 (JDetail msg))
       \<and> (fault s = None \<and> length rs = 5 \<and> (\<forall>r\<in>set rs. \<exists>i. validate_Inquiry ev r = Inr i) \<longrightarrow>
            (\<exists>d1 d2. get_inquiries (post_all ev lib cfg tr s rs) (Some 2) = Response 200 (JItems [d1, d2])))"
proof -
  have a: "\<exists>items. get_inquiries s q = Response 200 (JItems items)
              \<and> (0 \<le> limit \<longrightarrow> int (length items) \<le> limit)
              \<and> (\<forall>d\<in>set items. \<forall>v. map_of d ''_id'' = Some v \<longrightarrow> (\<exists>t. v = VStr t))
              \<and> (\<forall>k < length items.
                    map_of (items ! k) ''_id''
                      = map_option (\<lambda>v. VStr (py_str v)) (map_of (collections s ''inquiry'' ! k) ''_id''))"
    if f: "fault s = None"
  proof -
    let ?items = "map stringify_id (take (nat limit) (collections s ''inquiry''))"
    have 1: "get_inquiries s q = Response 200 (JItems ?items)"
      using get_inquiries_ok [OF f, of q] assms by simp
    have 2: "0 \<le> limit \<longrightarrow> int (length ?items) \<le> limit" by auto
    have 3: "\<forall>d\<in>set ?items. \<forall>v. map_of d ''_id'' = Some v \<longrightarrow> (\<exists>t. v = VStr t)"
      by (auto simp: map_of_stringify_id)
    have 4: "\<forall>k < length ?items. map_of (?items ! k) ''_id''
                = map_option (\<lambda>v. VStr (py_str v)) (map_of (collections s ''inquiry'' ! k) ''_id'')"
      by (simp add: map_of_stringify_id)
    from 1 2 3 4 show ?thesis by blast
  qed
  have b: "\<forall>msg. fault s = Some msg \<longrightarrow> get_inquiries s q = Response 500 (JDetail msg)"
    by (simp add: get_inquiries_fault)
  have c: "\<exists>d1 d2. get_inquiries (post_all ev lib cfg tr s rs) (Some 2) = Response 200 (JItems [d1, d2])"
    if f: "fault s = None" and l: "length rs = 5"
      and v: "\<forall>r\<in>set rs. \<exists>i. validate_Inquiry ev r = Inr i"
  proof -
    let ?s = "post_all ev lib cfg tr s rs"
    from post_all_valid [OF f v, of lib cfg tr] l
    have f': "fault ?s = None" and n: "5 \<le> length (collections ?s ''inquiry'')" by simp_all
    from n obtain x y zs where xs: "collections ?s ''inquiry'' = x # y # zs"
      by (cases "collections ?s ''inquiry''"; cases "tl (collections ?s ''inquiry'')") auto
    have "take (nat 2) (collections ?s ''inquiry'') = [x, y]"
      by (simp add: xs numeral_2_eq_2)
    with get_inquiries_ok [OF f', of "Some 2"] show ?thesis by simp
  qed
  from a b c show ?thesis by blast
qed

text \<open>Five times the example submission on the empty store, then a listing with limit 2.\<close>
theorem C6_listing_witness:
  "(2 :: int) = (case Some 2 of None \<Rightarrow> 50 | Some l \<Rightarrow> l)
   \<and> fault empty_store = None \<and> length [jo, jo, jo, jo, jo] = 5
   \<and> validate_Inquiry ev_at jo = Inr jo_inquiry
   \<and> (\<exists>items. get_inquiries empty_store (Some 2) = Response 200 (JItems items)
                \<and> int (length items) \<le> 2)
   \<and> (\<exists>d1 d2. get_inquiries (post_all ev_at lib_std cfg_none tr_ok empty_store [jo, jo, jo, jo, jo]) (Some 2)
                  = Response 200 (JItems [d1, d2]))"
proof -
  have l: "(2 :: int) = (case Some 2 of None \<Rightarrow> 50 | Some l \<Rightarrow> l)" by simp
  have f: "fault empty_store = None" by (simp add: empty_store_def)
  have v: "\<forall>r\<in>set [jo, jo, jo, jo, jo]. \<exists>i. validate_Inquiry ev_at r = Inr i"
    using validate_jo by simp
  have n: "length [jo, jo, jo, jo, jo] = 5" by simp
  note t = C6_listing [OF l, of empty_store "[jo, jo, jo, jo, jo]" ev_at lib_std cfg_none tr_ok]
  from t f have "\<exists>items. get_inquiries empty_store (Some 2) = Response 200 (JItems items)
                \<and> int (length items) \<le> 2" by fastforce
  moreover from t f n v
  have "\<exists>d1 d2. get_inquiries (post_all ev_at lib_std cfg_none tr_ok empty_store [jo, jo, jo, jo, jo]) (Some 2)
                  = Response 200 (JItems [d1, d2])" by blast
  ultimately show ?thesis using l f n validate_jo by blast
qed

lemma send_assemble_raises:
  assumes "SMTP_HOST cfg = Some host" and "host \<noteq> []"
    and "TO_EMAIL cfg = Some to" and "to \<noteq> []"
    and "assemble lib (build_mail cfg to inquiry) = Inl e"
  shows "send_inquiry_email lib cfg tr inquiry = ([], Some e)"
  using assms by (simp add: send_inquiry_email_def truthy_def py_or_str_def Let_def)








text \<open>
  The two error paths of the message on the example library: a name with a line break
  stops the send after the login, and a sender address outside ASCII stops it before the
  connection.
\<close>

lemma send_two_line_name:
  "send_inquiry_email lib_std cfg_mail tr_ok two_line_inquiry =
     ([Connect ''smtp.example.com'' 587 15, Starttls, Login ''mailer'' ''secret'', Exit],
      Some (Exception ''HeaderParseError''))"
  by (simp add: send_inquiry_email_def smtp_session_def assemble_def call_def truthy_def
      py_or_str_def cfg_mail_def tr_ok_def build_mail_def lib_std_def is_ascii_def
      subject_of_def two_line_inquiry_def jo_inquiry_def Let_def)

lemma send_latin_sender:
  "send_inquiry_email lib_std cfg_latin_sender tr_ok jo_inquiry
     = ([], Some (Exception ''UnicodeEncodeError''))"
  by (simp add: send_inquiry_email_def assemble_def truthy_def py_or_str_def
      cfg_latin_sender_def cfg_mail_def build_mail_def lib_std_def is_ascii_def Let_def)



text \<open>
  C8. The sender address is \<^verbatim>\<open>FROM_EMAIL\<close> of the environment when that is set to text that
  is not empty, otherwise \<^verbatim>\<open>SMTP_USER\<close> when that is, otherwise
  \<open>no-reply@psychsphere.local\<close>; the recipient is \<^verbatim>\<open>TO_EMAIL\<close> when set to text that is
  not empty, otherwise whatever \<^verbatim>\<open>OWNER_EMAIL\<close> is.
\<close>

theorem C8_sender_and_recipient:
  assumes "module_config py_int env = Some cfg"
  shows "(\<forall>a. env ''FROM_EMAIL'' = Some a \<and> a \<noteq> [] \<longrightarrow> FROM_EMAIL cfg = a)
       \<and> (\<not> truthy (env ''FROM_EMAIL'') \<longrightarrow>
            (\<forall>u. env ''SMTP_USER'' = Some u \<and> u \<noteq> [] \<longrightarrow> FROM_EMAIL cfg = u)
            \<and> (\<not> truthy (env ''SMTP_USER'') \<longrightarrow> FROM_EMAIL cfg = ''no-reply@psychsphere.local''))
       \<and> (truthy (env ''TO_EMAIL'') \<longrightarrow> TO_EMAIL cfg = env ''TO_EMAIL'')
       \<and> (\<not> truthy (env ''TO_EMAIL'') \<longrightarrow> TO_EMAIL cfg = env ''OWNER_EMAIL'')
       \<and> From (build_mail cfg to inquiry) = (FROM_NAME cfg, FROM_EMAIL cfg)"
proof -
  from assms have f: "FROM_EMAIL cfg = py_or_str (py_or (env ''FROM_EMAIL'') (env ''SMTP_USER''))
                                         ''no-reply@psychsphere.local''"
    and t: "TO_EMAIL cfg = py_or (env ''TO_EMAIL'') (env ''OWNER_EMAIL'')"
    by (auto simp: module_config_def getenv_def split: option.splits)
  have 1: "\<forall>a. env ''FROM_EMAIL'' = Some a \<and> a \<noteq> [] \<longrightarrow> FROM_EMAIL cfg = a"
    by (simp add: f py_or_def py_or_str_def truthy_def)
  have 2: "\<not> truthy (env ''FROM_EMAIL'') \<longrightarrow>
            (\<forall>u. env ''SMTP_USER'' = Some u \<and> u \<noteq> [] \<longrightarrow> FROM_EMAIL cfg = u)
            \<and> (\<not> truthy (env ''SMTP_USER'') \<longrightarrow> FROM_EMAIL cfg = ''no-reply@psychsphere.local'')"
    by (auto simp: f py_or_def py_or_str_def truthy_def split: option.splits)
  have 3: "truthy (env ''TO_EMAIL'') \<longrightarrow> TO_EMAIL cfg = env ''TO_EMAIL''"
    and 4: "\<not> truthy (env ''TO_EMAIL'') \<longrightarrow> TO_EMAIL cfg = env ''OWNER_EMAIL''"
    by (simp_all add: t py_or_def)
  have 5: "From (build_mail cfg to inquiry) = (FROM_NAME cfg, FROM_EMAIL cfg)"
    by (simp add: build_mail_def)
  from 1 2 3 4 5 show ?thesis by blast
qed

text \<open>
  With only \<^verbatim>\<open>SMTP_HOST\<close>, \<^verbatim>\<open>SMTP_USER\<close> and \<^verbatim>\<open>OWNER_EMAIL\<close> set, the sender is the user and
  the recipient the owner.
\<close>

theorem C8_sender_and_recipient_witness:
  "(\<exists>cfg. module_config int_587 env_owner = Some cfg
      \<and> \<not> truthy (env_owner ''FROM_EMAIL'') \<and> env_owner ''SMTP_USER'' = Some ''mailer''
      \<and> \<not> truthy (env_owner ''TO_EMAIL'')
      \<and> FROM_EMAIL cfg = ''mailer'' \<and> TO_EMAIL cfg = Some ''owner@example.com'')"
proof -
  obtain cfg where c: "module_config int_587 env_owner = Some cfg"
    by (simp add: module_config_def int_587_def getenv_default_def env_owner_def)
  have e: "\<not> truthy (env_owner ''FROM_EMAIL'')" "env_owner ''SMTP_USER'' = Some ''mailer''"
    "\<not> truthy (env_owner ''TO_EMAIL'')" "env_owner ''OWNER_EMAIL'' = Some ''owner@example.com''"
    by (simp_all add: env_owner_def truthy_def)
  from C8_sender_and_recipient [OF c] e
  have "FROM_EMAIL cfg = ''mailer''" and "TO_EMAIL cfg = Some ''owner@example.com''"
    by auto
  with c e show ?thesis by blast
qed






end
